theory Spec2Isabelle
  imports Main
begin

section \<open>CloudWatch dashboard body: data model\<close>

text \<open>
  The errors of the body builder. \<open>getDashboardBody\<close> throws \<open>new Error(msg)\<close> with one of two
  messages; a leaf widget whose property producer fails raises an error of its own, which the
  engine only passes on.
\<close>

datatype error = Error string | LeafPropertyError

abbreviation BoundsError :: error where
  "BoundsError \<equiv> Error ''Must supply between 0 and 100 widgets.''"

abbreviation HeterogeneousListError :: error where
  "HeterogeneousListError \<equiv> Error ''All widgets must either be RowWidgets or none of them must be.''"

text \<open>The serialized leaf output (\<open>WidgetJson\<close>), with the properties left opaque.\<close>

record 'p widget_json =
  wj_type :: string
  wj_x :: int
  wj_y :: int
  wj_width :: int
  wj_height :: int
  wj_properties :: 'p

text \<open>
  Modelled from the spec: the \<open>Widget\<close> interface and its implementations (\<open>./widget\<close>,
  \<open>./widgets_flow\<close>) are imported by \<open>dashboard.ts\<close>, but their code is not available.
  A widget is a leaf with a declared width and height, a type tag and a property producer that
  reads the context (the region) and may fail, or a row group, or a column group, each owning
  its ordered children.
\<close>

datatype ('c, 'p) widget =
    Leaf int int string "'c \<Rightarrow> 'p option"
  | RowWidget "('c, 'p) widget list"
  | ColumnWidget "('c, 'p) widget list"

text \<open>\<open>w instanceof RowWidget\<close>\<close>

fun instanceofRowWidget :: "('c, 'p) widget \<Rightarrow> bool" where
  "instanceofRowWidget (RowWidget ws) = True"
| "instanceofRowWidget (Leaf w h t p) = False"
| "instanceofRowWidget (ColumnWidget ws) = False"

datatype period_override = Auto | Inherit

record ('c, 'p) DashboardArgs =
  arg_name :: "string option"
  arg_region :: "'c option"
  arg_end :: "string option"
  arg_start :: "string option"
  arg_periodOverride :: "period_override option"
  arg_widgets :: "('c, 'p) widget list option"

record 'p DashboardBody =
  body_start :: "string option"
  body_end :: "string option"
  body_periodOverride :: "period_override option"
  body_widgets :: "'p widget_json list"

section \<open>Row and column layout\<close>

text \<open>
  Modelled from the spec: the running cursors of a row (section 4.2). All three start at 0.
  Before a child is placed the row wraps when the child would cross column 24; after it is
  placed the column cursor moves right by the child's width and the line height grows to the
  child's height.
\<close>

record row_cursor =
  cursorX :: int
  cursorY :: int
  lineHeight :: int

definition row_start :: row_cursor where
  "row_start = \<lparr>cursorX = 0, cursorY = 0, lineHeight = 0\<rparr>"

definition row_wrap :: "row_cursor \<Rightarrow> int \<Rightarrow> row_cursor" where
  "row_wrap st cw =
     (if cursorX st + cw > 24
      then \<lparr>cursorX = 0, cursorY = cursorY st + lineHeight st, lineHeight = 0\<rparr>
      else st)"

definition row_advance :: "row_cursor \<Rightarrow> int \<Rightarrow> int \<Rightarrow> row_cursor" where
  "row_advance st cw ch =
     \<lparr>cursorX = cursorX st + cw, cursorY = cursorY st, lineHeight = max (lineHeight st) ch\<rparr>"

text \<open>
  Modelled from the spec: the cursor after all children of a row (given as width/height pairs)
  have been processed, and the largest \<open>cursorX\<close> seen on the way (starting from \<open>m\<close>).
\<close>

fun row_finish :: "row_cursor \<Rightarrow> (int \<times> int) list \<Rightarrow> row_cursor" where
  "row_finish st [] = st"
| "row_finish st ((cw, ch) # cs) = row_finish (row_advance (row_wrap st cw) cw ch) cs"

fun row_extent :: "row_cursor \<Rightarrow> int \<Rightarrow> (int \<times> int) list \<Rightarrow> int" where
  "row_extent st m [] = m"
| "row_extent st m ((cw, ch) # cs) =
     (let st' = row_advance (row_wrap st cw) cw ch
      in row_extent st' (max m (cursorX st')) cs)"

text \<open>
  Modelled from the spec: the size of a widget. A leaf has its declared size. A row is as high
  as its final vertical cursor plus its last line, and as wide as the largest \<open>cursorX\<close> it
  reached, capped at 24. A column is as high as its children together and as wide as its widest
  child (0 when it has none).
\<close>

fun width :: "('c, 'p) widget \<Rightarrow> int"
  and height :: "('c, 'p) widget \<Rightarrow> int" where
  "width (Leaf w h t p) = w"
| "width (RowWidget ws) =
     min 24 (row_extent row_start 0 (map (\<lambda>c. (width c, height c)) ws))"
| "width (ColumnWidget ws) =
     (case map width ws of [] \<Rightarrow> 0 | cw # rest \<Rightarrow> fold max rest cw)"
| "height (Leaf w h t p) = h"
| "height (RowWidget ws) =
     (let fin = row_finish row_start (map (\<lambda>c. (width c, height c)) ws)
      in cursorY fin + lineHeight fin)"
| "height (ColumnWidget ws) = sum_list (map height ws)"

text \<open>
  Modelled from the spec: \<open>addWidgetJson\<close> (the spec's emit, sections 4.1 to 4.3). The output
  sequence is passed in and returned extended. A leaf appends one record at the offset; a row
  runs its cursors over its children; a column stacks its children. A failing leaf ends the
  traversal with its error.
\<close>

fun addWidgetJson ::
      "'p widget_json list \<Rightarrow> int \<Rightarrow> int \<Rightarrow> 'c \<Rightarrow> ('c, 'p) widget \<Rightarrow> error + 'p widget_json list"
  and addRowJson ::
      "'p widget_json list \<Rightarrow> int \<Rightarrow> int \<Rightarrow> 'c \<Rightarrow> row_cursor \<Rightarrow> ('c, 'p) widget list
         \<Rightarrow> error + 'p widget_json list"
  and addColumnJson ::
      "'p widget_json list \<Rightarrow> int \<Rightarrow> int \<Rightarrow> 'c \<Rightarrow> int \<Rightarrow> ('c, 'p) widget list
         \<Rightarrow> error + 'p widget_json list" where
  "addWidgetJson out xOffset yOffset region (Leaf w h t p) =
     (case p region of
        None \<Rightarrow> Inl LeafPropertyError
      | Some props \<Rightarrow>
          Inr (out @ [\<lparr>wj_type = t, wj_x = xOffset, wj_y = yOffset, wj_width = w, wj_height = h,
                       wj_properties = props\<rparr>]))"
| "addWidgetJson out xOffset yOffset region (RowWidget ws) =
     addRowJson out xOffset yOffset region row_start ws"
| "addWidgetJson out xOffset yOffset region (ColumnWidget ws) =
     addColumnJson out xOffset yOffset region 0 ws"
| "addRowJson out xOffset yOffset region st [] = Inr out"
| "addRowJson out xOffset yOffset region st (c # cs) =
     (case addWidgetJson out (xOffset + cursorX (row_wrap st (width c)))
             (yOffset + cursorY (row_wrap st (width c))) region c of
        Inl e \<Rightarrow> Inl e
      | Inr out' \<Rightarrow>
          addRowJson out' xOffset yOffset region
            (row_advance (row_wrap st (width c)) (width c) (height c)) cs)"
| "addColumnJson out xOffset yOffset region cy [] = Inr out"
| "addColumnJson out xOffset yOffset region cy (c # cs) =
     (case addWidgetJson out xOffset (yOffset + cy) region c of
        Inl e \<Rightarrow> Inl e
      | Inr out' \<Rightarrow> addColumnJson out' xOffset yOffset region (cy + height c) cs)"

section \<open>The body builder\<close>

text \<open>
  The loop \<open>for (let i = 1; i < widgets.length; i++)\<close> of \<open>getDashboardBody\<close>: it throws at the
  first widget whose row classification differs from the first widget's.
\<close>

function checkRows :: "bool \<Rightarrow> ('c, 'p) widget list \<Rightarrow> nat \<Rightarrow> error option" where
  "checkRows firstWidgetIsRow widgets i =
     (if i < length widgets
      then (if firstWidgetIsRow \<noteq> instanceofRowWidget (widgets ! i)
            then Some HeterogeneousListError
            else checkRows firstWidgetIsRow widgets (i + 1))
      else None)"
  by pat_completeness auto
termination
  by (relation "measure (\<lambda>(f, ws, i). length ws - i)") auto

declare checkRows.simps [simp del]

text \<open>
  \<open>getDashboardBody(args, region)\<close>. An omitted widget list reads as the empty list;
  \<open>widgets[0]\<close> of an empty list is \<open>undefined\<close>, which is not an instance of \<open>RowWidget\<close>.
\<close>

definition getDashboardBody ::
    "('c, 'p) DashboardArgs \<Rightarrow> 'c \<Rightarrow> error + 'p DashboardBody" where
  "getDashboardBody args region =
     (let widgets = (case arg_widgets args of None \<Rightarrow> [] | Some ws \<Rightarrow> ws) in
      if int (length widgets) < 0 \<or> length widgets > 100 then Inl BoundsError
      else
        (let firstWidgetIsRow =
               (case widgets of [] \<Rightarrow> False | w # rest \<Rightarrow> instanceofRowWidget w) in
         case checkRows firstWidgetIsRow widgets 1 of
           Some e \<Rightarrow> Inl e
         | None \<Rightarrow>
            (let rows = (if firstWidgetIsRow then widgets else [RowWidget widgets]);
                 column = ColumnWidget rows in
             (case addWidgetJson [] 0 0 region column of
                Inl e \<Rightarrow> Inl e
              | Inr widgetJsons \<Rightarrow>
                  Inr \<lparr>body_start = arg_start args, body_end = arg_end args,
                       body_periodOverride = arg_periodOverride args,
                       body_widgets = widgetJsons\<rparr>))))"

section \<open>Notions used to state the properties\<close>

text \<open>
  The leaves of a widget tree in reading order, what a leaf renders to in a given context, what
  a record says about the leaf it came from, and whether a leaf's property producer succeeds.
\<close>

type_synonym ('c, 'p) leaf = "int \<times> int \<times> string \<times> ('c \<Rightarrow> 'p option)"

fun leaves :: "('c, 'p) widget \<Rightarrow> ('c, 'p) leaf list" where
  "leaves (Leaf w h t p) = [(w, h, t, p)]"
| "leaves (RowWidget ws) = concat (map leaves ws)"
| "leaves (ColumnWidget ws) = concat (map leaves ws)"

definition rendered :: "'c \<Rightarrow> ('c, 'p) leaf \<Rightarrow> int \<times> int \<times> string \<times> 'p option" where
  "rendered region l = (case l of (w, h, t, p) \<Rightarrow> (w, h, t, p region))"

definition content :: "'p widget_json \<Rightarrow> int \<times> int \<times> string \<times> 'p option" where
  "content r = (wj_width r, wj_height r, wj_type r, Some (wj_properties r))"

definition renders :: "'c \<Rightarrow> ('c, 'p) leaf \<Rightarrow> bool" where
  "renders region l = (case l of (w, h, t, p) \<Rightarrow> p region \<noteq> None)"

text \<open>
  The cursor states a row goes through: the starting cursor, then the cursor after each child.
\<close>

fun row_trace :: "row_cursor \<Rightarrow> (int \<times> int) list \<Rightarrow> row_cursor list" where
  "row_trace st [] = [st]"
| "row_trace st ((cw, ch) # cs) = st # row_trace (row_advance (row_wrap st cw) cw ch) cs"

text \<open>Sample inputs: a leaf that renders its region, a leaf whose producer fails, sample arguments.\<close>

definition metricLeaf :: "int \<Rightarrow> int \<Rightarrow> (string, string) widget" where
  "metricLeaf w h = Leaf w h ''metric'' Some"

definition brokenLeaf :: "(string, string) widget" where
  "brokenLeaf = Leaf 6 6 ''metric'' (\<lambda>region. None)"

definition sampleArgs :: "(string, string) DashboardArgs" where
  "sampleArgs = \<lparr>arg_name = Some ''ops'', arg_region = None, arg_end = None,
                  arg_start = Some ''-PT8H'', arg_periodOverride = Some Auto,
                  arg_widgets = Some [metricLeaf 10 3, metricLeaf 10 5, metricLeaf 10 2]\<rparr>"

section \<open>The homogeneity loop and the builder's three outcomes\<close>

lemma checkRows_None_iff:
  "checkRows f ws i = None \<longleftrightarrow>
     (\<forall>j. i \<le> j \<and> j < length ws \<longrightarrow> instanceofRowWidget (ws ! j) = f)"
proof (induction f ws i rule: checkRows.induct)
  case (1 f ws i)
  show ?case
  proof (cases "i < length ws")
    case False
    then show ?thesis by (auto simp: checkRows.simps [of f ws i])
  next
    case True
    show ?thesis
    proof (cases "f \<noteq> instanceofRowWidget (ws ! i)")
      case True
      have "checkRows f ws i = Some HeterogeneousListError"
        by (subst checkRows.simps) (use True \<open>i < length ws\<close> in simp)
      then have "checkRows f ws i \<noteq> None" by simp
      moreover from True \<open>i < length ws\<close>
      have "\<not> (\<forall>j. i \<le> j \<and> j < length ws \<longrightarrow> instanceofRowWidget (ws ! j) = f)"
        by (intro notI) (drule spec [of _ i], simp)
      ultimately show ?thesis by blast
    next
      case False
      have "checkRows f ws i = checkRows f ws (i + 1)"
        by (subst checkRows.simps) (use False \<open>i < length ws\<close> in simp)
      also from False \<open>i < length ws\<close> have
        "checkRows f ws (i + 1) = None \<longleftrightarrow>
           (\<forall>j. i + 1 \<le> j \<and> j < length ws \<longrightarrow> instanceofRowWidget (ws ! j) = f)"
        by (intro "1.IH") simp_all
      also have "\<dots> \<longleftrightarrow> (\<forall>j. i \<le> j \<and> j < length ws \<longrightarrow> instanceofRowWidget (ws ! j) = f)"
      proof
        assume a: "\<forall>j. i + 1 \<le> j \<and> j < length ws \<longrightarrow> instanceofRowWidget (ws ! j) = f"
        show "\<forall>j. i \<le> j \<and> j < length ws \<longrightarrow> instanceofRowWidget (ws ! j) = f"
        proof (intro allI impI)
          fix j assume j: "i \<le> j \<and> j < length ws"
          show "instanceofRowWidget (ws ! j) = f"
          proof (cases "j = i")
            case True
            with False show ?thesis by simp
          next
            case False
            with j have "i + 1 \<le> j" by simp
            with a j show ?thesis by blast
          qed
        qed
      next
        assume "\<forall>j. i \<le> j \<and> j < length ws \<longrightarrow> instanceofRowWidget (ws ! j) = f"
        then show "\<forall>j. i + 1 \<le> j \<and> j < length ws \<longrightarrow> instanceofRowWidget (ws ! j) = f"
          by simp
      qed
      finally show ?thesis .
    qed
  qed
qed

lemma checkRows_Some: "checkRows f ws i = Some e \<Longrightarrow> e = HeterogeneousListError"
proof (induction f ws i rule: checkRows.induct)
  case (1 f ws i)
  from "1.prems" show ?case
    by (subst (asm) checkRows.simps) (auto split: if_splits dest: "1.IH")
qed

lemma first_is_nth0:
  "ws \<noteq> [] \<Longrightarrow> (case ws of [] \<Rightarrow> False | w # rest \<Rightarrow> instanceofRowWidget w) = instanceofRowWidget (ws ! 0)"
  by (cases ws) simp_all

lemma getDashboardBody_bounds:
  "100 < length ws \<Longrightarrow> getDashboardBody (args\<lparr>arg_widgets := Some ws\<rparr>) region = Inl BoundsError"
  by (simp add: getDashboardBody_def)

lemma getDashboardBody_mixed:
  assumes len: "length ws \<le> 100"
    and i: "i < length ws"
    and diff: "instanceofRowWidget (ws ! i) \<noteq> instanceofRowWidget (ws ! 0)"
  shows "getDashboardBody (args\<lparr>arg_widgets := Some ws\<rparr>) region = Inl HeterogeneousListError"
proof -
  let ?f = "case ws of [] \<Rightarrow> False | w # rest \<Rightarrow> instanceofRowWidget w"
  from i have ne: "ws \<noteq> []" by auto
  then have f: "?f = instanceofRowWidget (ws ! 0)" by (rule first_is_nth0)
  from diff have "i \<noteq> 0" by (cases i) auto
  then have "1 \<le> i" by simp
  with i diff f have "checkRows ?f ws 1 \<noteq> None"
    by (auto simp: checkRows_None_iff)
  then obtain e where e: "checkRows ?f ws 1 = Some e" by auto
  then have "e = HeterogeneousListError" by (rule checkRows_Some)
  with e len show ?thesis
    by (simp add: getDashboardBody_def)
qed

lemma getDashboardBody_valid:
  assumes len: "length ws \<le> 100"
    and hom: "\<forall>i<length ws. instanceofRowWidget (ws ! i) = instanceofRowWidget (ws ! 0)"
  shows "getDashboardBody (args\<lparr>arg_widgets := Some ws\<rparr>) region =
     (case addWidgetJson [] 0 0 region
             (ColumnWidget (if (case ws of [] \<Rightarrow> False | w # rest \<Rightarrow> instanceofRowWidget w)
                            then ws else [RowWidget ws])) of
        Inl e \<Rightarrow> Inl e
      | Inr widgetJsons \<Rightarrow>
          Inr \<lparr>body_start = arg_start args, body_end = arg_end args,
               body_periodOverride = arg_periodOverride args, body_widgets = widgetJsons\<rparr>)"
proof -
  let ?f = "case ws of [] \<Rightarrow> False | w # rest \<Rightarrow> instanceofRowWidget w"
  have "checkRows ?f ws 1 = None"
  proof (cases "ws = []")
    case True
    then show ?thesis by (simp add: checkRows.simps)
  next
    case False
    then have "?f = instanceofRowWidget (ws ! 0)" by (rule first_is_nth0)
    with hom show ?thesis by (simp add: checkRows_None_iff)
  qed
  with len show ?thesis
    by (simp add: getDashboardBody_def Let_def del: addWidgetJson.simps split: sum.splits)
qed

section \<open>Flattening\<close>

lemma flatten_all:
  "list_all (renders region) (leaves w) \<Longrightarrow>
     \<exists>recs. addWidgetJson out x y region w = Inr (out @ recs)
           \<and> map content recs = map (rendered region) (leaves w)"
  "list_all (renders region) (concat (map leaves ws)) \<Longrightarrow>
     \<exists>recs. addRowJson out x y region st ws = Inr (out @ recs)
           \<and> map content recs = map (rendered region) (concat (map leaves ws))"
  "list_all (renders region) (concat (map leaves ws)) \<Longrightarrow>
     \<exists>recs. addColumnJson out x y region cy ws = Inr (out @ recs)
           \<and> map content recs = map (rendered region) (concat (map leaves ws))"
proof (induction out x y region w and out x y region st ws and out x y region cy ws
       rule: addWidgetJson_addRowJson_addColumnJson.induct)
  case (1 out xOffset yOffset region w h t p)
  then show ?case by (auto simp: renders_def rendered_def content_def)
next
  case (2 out xOffset yOffset region ws)
  then show ?case by simp
next
  case (3 out xOffset yOffset region ws)
  then show ?case by simp
next
  case (4 out xOffset yOffset region st)
  then show ?case by simp
next
  case (5 out xOffset yOffset region st c cs)
  from "5.prems" have a: "list_all (renders region) (leaves c)"
    and b: "list_all (renders region) (concat (map leaves cs))" by simp_all
  from "5.IH"(1) [OF a] obtain r1 where
    r1: "addWidgetJson out (xOffset + cursorX (row_wrap st (width c)))
           (yOffset + cursorY (row_wrap st (width c))) region c = Inr (out @ r1)"
        "map content r1 = map (rendered region) (leaves c)" by blast
  from "5.IH"(2) [OF r1(1) b] obtain r2 where
    r2: "addRowJson (out @ r1) xOffset yOffset region
           (row_advance (row_wrap st (width c)) (width c) (height c)) cs = Inr ((out @ r1) @ r2)"
        "map content r2 = map (rendered region) (concat (map leaves cs))" by blast
  have "addRowJson out xOffset yOffset region st (c # cs) = Inr (out @ (r1 @ r2))"
    using r1(1) r2(1) by simp
  moreover have "map content (r1 @ r2) = map (rendered region) (concat (map leaves (c # cs)))"
    using r1(2) r2(2) by simp
  ultimately show ?case by blast
next
  case (6 out xOffset yOffset region cy)
  then show ?case by simp
next
  case (7 out xOffset yOffset region cy c cs)
  from "7.prems" have a: "list_all (renders region) (leaves c)"
    and b: "list_all (renders region) (concat (map leaves cs))" by simp_all
  from "7.IH"(1) [OF a] obtain r1 where
    r1: "addWidgetJson out xOffset (yOffset + cy) region c = Inr (out @ r1)"
        "map content r1 = map (rendered region) (leaves c)" by blast
  from "7.IH"(2) [OF r1(1) b] obtain r2 where
    r2: "addColumnJson (out @ r1) xOffset yOffset region (cy + height c) cs = Inr ((out @ r1) @ r2)"
        "map content r2 = map (rendered region) (concat (map leaves cs))" by blast
  have "addColumnJson out xOffset yOffset region cy (c # cs) = Inr (out @ (r1 @ r2))"
    using r1(1) r2(1) by simp
  moreover have "map content (r1 @ r2) = map (rendered region) (concat (map leaves (c # cs)))"
    using r1(2) r2(2) by simp
  ultimately show ?case by blast
qed


section \<open>Builder outcomes\<close>

lemma addWidgetJson_error:
  "addWidgetJson out x y region w = Inl e \<Longrightarrow> e = LeafPropertyError"
  "addRowJson out x y region st ws = Inl e \<Longrightarrow> e = LeafPropertyError"
  "addColumnJson out x y region cy ws = Inl e \<Longrightarrow> e = LeafPropertyError"
  by (induction out x y region w and out x y region st ws and out x y region cy ws
      rule: addWidgetJson_addRowJson_addColumnJson.induct)
     (auto split: option.splits sum.splits)

lemma getDashboardBody_in_bounds:
  assumes len: "length ws \<le> 100"
  shows "getDashboardBody (args\<lparr>arg_widgets := Some ws\<rparr>) region \<noteq> Inl BoundsError"
proof (cases "\<exists>i<length ws. instanceofRowWidget (ws ! i) \<noteq> instanceofRowWidget (ws ! 0)")
  case True
  then obtain i where "i < length ws"
    "instanceofRowWidget (ws ! i) \<noteq> instanceofRowWidget (ws ! 0)" by blast
  with len have "getDashboardBody (args\<lparr>arg_widgets := Some ws\<rparr>) region = Inl HeterogeneousListError"
    by (rule getDashboardBody_mixed)
  then show ?thesis by simp
next
  case False
  then have hom: "\<forall>i<length ws. instanceofRowWidget (ws ! i) = instanceofRowWidget (ws ! 0)"
    by blast
  show ?thesis
    unfolding getDashboardBody_valid [OF len hom]
    by (auto split: sum.splits dest: addWidgetJson_error(1) simp del: addWidgetJson.simps)
qed

lemma getDashboardBody_empty:
  "getDashboardBody (args\<lparr>arg_widgets := Some []\<rparr>) region =
     Inr \<lparr>body_start = arg_start args, body_end = arg_end args,
          body_periodOverride = arg_periodOverride args, body_widgets = []\<rparr>"
  by (simp add: getDashboardBody_def checkRows.simps)

lemma leaves_replicate_Leaf:
  "concat (map leaves (replicate n (Leaf w h t p))) = replicate n (w, h, t, p)"
  by (induction n) simp_all

lemma getDashboardBody_leaves:
  assumes len: "length ws \<le> 100"
    and norow: "\<forall>i<length ws. \<not> instanceofRowWidget (ws ! i)"
    and ok: "list_all (renders region) (concat (map leaves ws))"
  shows "\<exists>js. getDashboardBody (args\<lparr>arg_widgets := Some ws\<rparr>) region =
            Inr \<lparr>body_start = arg_start args, body_end = arg_end args,
                 body_periodOverride = arg_periodOverride args, body_widgets = js\<rparr>
          \<and> addWidgetJson [] 0 0 region (ColumnWidget [RowWidget ws]) = Inr js
          \<and> map content js = map (rendered region) (concat (map leaves ws))"
proof -
  from norow have hom: "\<forall>i<length ws. instanceofRowWidget (ws ! i) = instanceofRowWidget (ws ! 0)"
    by (metis length_greater_0_conv less_nat_zero_code list.size(3) not_gr_zero)
  have first: "\<not> (case ws of [] \<Rightarrow> False | w # rest \<Rightarrow> instanceofRowWidget w)"
  proof (cases ws)
    case Nil
    then show ?thesis by simp
  next
    case (Cons w rest)
    then have "0 < length ws" by simp
    with norow have "\<not> instanceofRowWidget (ws ! 0)" by blast
    with Cons show ?thesis by simp
  qed
  have "list_all (renders region) (leaves (ColumnWidget [RowWidget ws]))"
    using ok by simp
  from flatten_all(1) [OF this, of "[]" 0 0] obtain js where
    js: "addWidgetJson [] 0 0 region (ColumnWidget [RowWidget ws]) = Inr js"
        "map content js = map (rendered region) (concat (map leaves ws))"
    by auto
  from getDashboardBody_valid [OF len hom, of args region] first js(1)
  have "getDashboardBody (args\<lparr>arg_widgets := Some ws\<rparr>) region =
            Inr \<lparr>body_start = arg_start args, body_end = arg_end args,
                 body_periodOverride = arg_periodOverride args, body_widgets = js\<rparr>"
    by (simp del: addWidgetJson.simps)
  with js show ?thesis by blast
qed

lemma not_all_same_iff:
  "(\<exists>i<length ws. instanceofRowWidget (ws ! i) \<noteq> instanceofRowWidget (ws ! 0))
     \<longleftrightarrow> \<not> (list_all instanceofRowWidget ws \<or> list_all (\<lambda>w. \<not> instanceofRowWidget w) ws)"
proof (cases ws)
  case Nil
  then show ?thesis by simp
next
  case (Cons w rest)
  then have "0 < length ws" by simp
  then show ?thesis
    unfolding list_all_length by (cases "instanceofRowWidget (ws ! 0)") auto
qed

lemma getDashboardBody_mixed_iff:
  assumes len: "length ws \<le> 100"
  shows "getDashboardBody (args\<lparr>arg_widgets := Some ws\<rparr>) region = Inl HeterogeneousListError
     \<longleftrightarrow> (\<exists>i<length ws. instanceofRowWidget (ws ! i) \<noteq> instanceofRowWidget (ws ! 0))"
proof
  assume err: "getDashboardBody (args\<lparr>arg_widgets := Some ws\<rparr>) region = Inl HeterogeneousListError"
  show "\<exists>i<length ws. instanceofRowWidget (ws ! i) \<noteq> instanceofRowWidget (ws ! 0)"
  proof (rule ccontr)
    assume "\<not> ?thesis"
    then have hom: "\<forall>i<length ws. instanceofRowWidget (ws ! i) = instanceofRowWidget (ws ! 0)"
      by blast
    from err show False
      unfolding getDashboardBody_valid [OF len hom]
      by (auto split: sum.splits dest: addWidgetJson_error(1) simp del: addWidgetJson.simps)
  qed
next
  assume "\<exists>i<length ws. instanceofRowWidget (ws ! i) \<noteq> instanceofRowWidget (ws ! 0)"
  then obtain i where "i < length ws"
    "instanceofRowWidget (ws ! i) \<noteq> instanceofRowWidget (ws ! 0)" by blast
  with len show "getDashboardBody (args\<lparr>arg_widgets := Some ws\<rparr>) region = Inl HeterogeneousListError"
    by (rule getDashboardBody_mixed)
qed

lemma getDashboardBody_no_rows:
  assumes len: "length ws \<le> 100"
    and norow: "list_all (\<lambda>w. \<not> instanceofRowWidget w) ws"
  shows "getDashboardBody (args\<lparr>arg_widgets := Some ws\<rparr>) region =
     (case addWidgetJson [] 0 0 region (ColumnWidget [RowWidget ws]) of
        Inl e \<Rightarrow> Inl e
      | Inr widgetJsons \<Rightarrow>
          Inr \<lparr>body_start = arg_start args, body_end = arg_end args,
               body_periodOverride = arg_periodOverride args, body_widgets = widgetJsons\<rparr>)"
proof -
  from norow have "\<not> (\<exists>i<length ws. instanceofRowWidget (ws ! i) \<noteq> instanceofRowWidget (ws ! 0))"
    by (simp only: not_all_same_iff) simp
  then have hom: "\<forall>i<length ws. instanceofRowWidget (ws ! i) = instanceofRowWidget (ws ! 0)"
    by blast
  from norow have "\<not> (case ws of [] \<Rightarrow> False | w # rest \<Rightarrow> instanceofRowWidget w)"
    by (cases ws) simp_all
  with getDashboardBody_valid [OF len hom, of args region] show ?thesis
    by (simp del: addWidgetJson.simps)
qed

section \<open>Properties of the body builder\<close>

text \<open>
  C3. The builder raises the bounds error exactly when the widget count is outside [0, 100],
  which, a length never being negative, means exactly when there are more than 100 widgets.
  No widgets give a body with an empty widgets array; 100 leaves give a body with 100 records;
  101 widgets of any kind give the bounds error.
\<close>

theorem getDashboardBody_count_bound:
  "(getDashboardBody (args\<lparr>arg_widgets := Some ws\<rparr>) region = Inl BoundsError
      \<longleftrightarrow> int (length ws) < 0 \<or> 100 < int (length ws))
   \<and> (getDashboardBody (args\<lparr>arg_widgets := Some ws\<rparr>) region = Inl BoundsError
      \<longleftrightarrow> 100 < length ws)
   \<and> getDashboardBody (args\<lparr>arg_widgets := Some []\<rparr>) region =
       Inr \<lparr>body_start = arg_start args, body_end = arg_end args,
            body_periodOverride = arg_periodOverride args, body_widgets = []\<rparr>
   \<and> (\<exists>js. getDashboardBody
               (args\<lparr>arg_widgets := Some (replicate 100 (Leaf w h t (\<lambda>c. Some q)))\<rparr>) region =
             Inr \<lparr>body_start = arg_start args, body_end = arg_end args,
                  body_periodOverride = arg_periodOverride args, body_widgets = js\<rparr>
           \<and> length js = 100)
   \<and> getDashboardBody (args\<lparr>arg_widgets := Some (replicate 101 v)\<rparr>) region = Inl BoundsError"
proof -
  have iff: "getDashboardBody (args\<lparr>arg_widgets := Some ws\<rparr>) region = Inl BoundsError
      \<longleftrightarrow> 100 < length ws"
  proof (cases "100 < length ws")
    case True
    then show ?thesis by (simp add: getDashboardBody_bounds)
  next
    case False
    then have "length ws \<le> 100" by simp
    from getDashboardBody_in_bounds [OF this] False show ?thesis by simp
  qed
  let ?l = "Leaf w h t (\<lambda>c. Some q)"
  have "\<exists>js. getDashboardBody (args\<lparr>arg_widgets := Some (replicate 100 ?l)\<rparr>) region =
            Inr \<lparr>body_start = arg_start args, body_end = arg_end args,
                 body_periodOverride = arg_periodOverride args, body_widgets = js\<rparr>
          \<and> addWidgetJson [] 0 0 region (ColumnWidget [RowWidget (replicate 100 ?l)]) = Inr js
          \<and> map content js = map (rendered region) (concat (map leaves (replicate 100 ?l)))"
    by (rule getDashboardBody_leaves)
       (simp_all add: leaves_replicate_Leaf list_all_iff renders_def)
  then obtain js where js:
    "getDashboardBody (args\<lparr>arg_widgets := Some (replicate 100 ?l)\<rparr>) region =
       Inr \<lparr>body_start = arg_start args, body_end = arg_end args,
            body_periodOverride = arg_periodOverride args, body_widgets = js\<rparr>"
    "map content js = map (rendered region) (concat (map leaves (replicate 100 ?l)))"
    by blast
  from js(2) have "length (map content js) = 100"
    by (simp add: leaves_replicate_Leaf)
  then have "length js = 100" by simp
  with js(1) have hundred: "\<exists>js. getDashboardBody (args\<lparr>arg_widgets := Some (replicate 100 ?l)\<rparr>) region =
            Inr \<lparr>body_start = arg_start args, body_end = arg_end args,
                 body_periodOverride = arg_periodOverride args, body_widgets = js\<rparr>
          \<and> length js = 100" by blast
  have over: "getDashboardBody (args\<lparr>arg_widgets := Some (replicate 101 v)\<rparr>) region = Inl BoundsError"
    by (rule getDashboardBody_bounds) simp
  from iff have iff': "getDashboardBody (args\<lparr>arg_widgets := Some ws\<rparr>) region = Inl BoundsError
      \<longleftrightarrow> int (length ws) < 0 \<or> 100 < int (length ws)" by simp
  from iff' iff getDashboardBody_empty [of args region] hundred over show ?thesis
    by (intro conjI)
qed

text \<open>
  C10. With the widgets field omitted the builder behaves as for an empty widget list: it
  returns a body whose widgets array is empty and whose start, end and periodOverride are the
  arguments' own.
\<close>

theorem getDashboardBody_widgets_omitted:
  "getDashboardBody (args\<lparr>arg_widgets := None\<rparr>) region =
     getDashboardBody (args\<lparr>arg_widgets := Some []\<rparr>) region
   \<and> getDashboardBody (args\<lparr>arg_widgets := None\<rparr>) region =
       Inr \<lparr>body_start = arg_start args, body_end = arg_end args,
            body_periodOverride = arg_periodOverride args, body_widgets = []\<rparr>"
  by (simp add: getDashboardBody_def checkRows.simps)

text \<open>
  C2, for lists within the count bound. For a list of at most 100 widgets the builder raises
  the heterogeneous-list error exactly when some element's row classification differs from the
  first element's; a list of at most 100 widgets none of which is a RowWidget passes validation
  and is laid out as one synthetic RowWidget under the root column. (A longer list is refused
  by the count check first: see the counterexample.)
\<close>

theorem getDashboardBody_heterogeneous_in_bounds:
  assumes "length ws \<le> 100"
  shows "(getDashboardBody (args\<lparr>arg_widgets := Some ws\<rparr>) region = Inl HeterogeneousListError
            \<longleftrightarrow> (\<exists>i<length ws. instanceofRowWidget (ws ! i) \<noteq> instanceofRowWidget (ws ! 0)))
       \<and> (list_all (\<lambda>w. \<not> instanceofRowWidget w) ws \<longrightarrow>
            getDashboardBody (args\<lparr>arg_widgets := Some ws\<rparr>) region =
              (case addWidgetJson [] 0 0 region (ColumnWidget [RowWidget ws]) of
                 Inl e \<Rightarrow> Inl e
               | Inr widgetJsons \<Rightarrow>
                   Inr \<lparr>body_start = arg_start args, body_end = arg_end args,
                        body_periodOverride = arg_periodOverride args,
                        body_widgets = widgetJsons\<rparr>)
            \<and> (\<forall>msg. getDashboardBody (args\<lparr>arg_widgets := Some ws\<rparr>) region
                       \<noteq> Inl (Error msg)))"
proof -
  have "\<forall>msg. getDashboardBody (args\<lparr>arg_widgets := Some ws\<rparr>) region \<noteq> Inl (Error msg)"
    if "list_all (\<lambda>w. \<not> instanceofRowWidget w) ws"
    unfolding getDashboardBody_no_rows [OF assms that]
    by (auto split: sum.splits dest: addWidgetJson_error(1) simp del: addWidgetJson.simps)
  with assms getDashboardBody_mixed_iff [of ws args region]
    getDashboardBody_no_rows [of ws args region]
  show ?thesis by blast
qed

theorem getDashboardBody_heterogeneous_in_bounds_witness:
  "length [RowWidget [metricLeaf 6 6], metricLeaf 6 6] \<le> 100
   \<and> instanceofRowWidget ([RowWidget [metricLeaf 6 6], metricLeaf 6 6] ! 1)
       \<noteq> instanceofRowWidget ([RowWidget [metricLeaf 6 6], metricLeaf 6 6] ! 0)
   \<and> getDashboardBody
       (sampleArgs\<lparr>arg_widgets := Some [RowWidget [metricLeaf 6 6], metricLeaf 6 6]\<rparr>)
       ''us-west-2'' = Inl HeterogeneousListError
   \<and> length [metricLeaf 12 6, metricLeaf 12 4] \<le> 100
   \<and> list_all (\<lambda>w. \<not> instanceofRowWidget w) [metricLeaf 12 6, metricLeaf 12 4]
   \<and> getDashboardBody (sampleArgs\<lparr>arg_widgets := Some [metricLeaf 12 6, metricLeaf 12 4]\<rparr>)
       ''us-west-2'' =
       Inr \<lparr>body_start = Some ''-PT8H'', body_end = None, body_periodOverride = Some Auto,
            body_widgets =
              [\<lparr>wj_type = ''metric'', wj_x = 0, wj_y = 0, wj_width = 12, wj_height = 6,
                wj_properties = ''us-west-2''\<rparr>,
               \<lparr>wj_type = ''metric'', wj_x = 12, wj_y = 0, wj_width = 12, wj_height = 4,
                wj_properties = ''us-west-2''\<rparr>]\<rparr>"
proof -
  have a: "\<exists>i<length [RowWidget [metricLeaf 6 6], metricLeaf 6 6].
             instanceofRowWidget ([RowWidget [metricLeaf 6 6], metricLeaf 6 6] ! i)
               \<noteq> instanceofRowWidget ([RowWidget [metricLeaf 6 6], metricLeaf 6 6] ! 0)"
    by (rule exI [of _ 1]) (simp add: metricLeaf_def)
  have b: "list_all (\<lambda>w. \<not> instanceofRowWidget w) [metricLeaf 12 6, metricLeaf 12 4]"
    by (simp add: metricLeaf_def)
  have c: "addWidgetJson [] 0 0 ''us-west-2''
             (ColumnWidget [RowWidget [metricLeaf 12 6, metricLeaf 12 4]]) =
           Inr [\<lparr>wj_type = ''metric'', wj_x = 0, wj_y = 0, wj_width = 12, wj_height = 6,
                wj_properties = ''us-west-2''\<rparr>,
               \<lparr>wj_type = ''metric'', wj_x = 12, wj_y = 0, wj_width = 12, wj_height = 4,
                wj_properties = ''us-west-2''\<rparr>]"
    by (simp add: metricLeaf_def row_start_def row_wrap_def row_advance_def)
  from a b c
    getDashboardBody_heterogeneous_in_bounds
      [of "[RowWidget [metricLeaf 6 6], metricLeaf 6 6]" sampleArgs "''us-west-2''"]
    getDashboardBody_heterogeneous_in_bounds
      [of "[metricLeaf 12 6, metricLeaf 12 4]" sampleArgs "''us-west-2''"]
  show ?thesis
    by (simp add: sampleArgs_def metricLeaf_def del: addWidgetJson.simps)
qed

theorem getDashboardBody_heterogeneous_counterexample:
  "instanceofRowWidget ((RowWidget [] # replicate 100 (Leaf 6 6 ''metric'' Some)) ! 1)
     \<noteq> instanceofRowWidget ((RowWidget [] # replicate 100 (Leaf 6 6 ''metric'' Some)) ! 0)
   \<and> getDashboardBody
       \<lparr>arg_name = None, arg_region = None, arg_end = None, arg_start = None,
        arg_periodOverride = None,
        arg_widgets = Some (RowWidget [] # replicate 100 (Leaf 6 6 ''metric'' Some))\<rparr>
       ''us-west-2'' \<noteq> Inl HeterogeneousListError
   \<and> getDashboardBody
       \<lparr>arg_name = None, arg_region = None, arg_end = None, arg_start = None,
        arg_periodOverride = None,
        arg_widgets = Some (RowWidget [] # replicate 100 (Leaf 6 6 ''metric'' Some))\<rparr>
       ''us-west-2'' = Inl BoundsError"
proof -
  have "getDashboardBody
       (\<lparr>arg_name = None, arg_region = None, arg_end = None, arg_start = None,
        arg_periodOverride = None, arg_widgets = None\<rparr>
        \<lparr>arg_widgets := Some (RowWidget [] # replicate 100 (Leaf 6 6 ''metric'' Some))\<rparr>)
       ''us-west-2'' = Inl BoundsError"
    by (rule getDashboardBody_bounds) simp
  then show ?thesis by simp
qed


text \<open>
  C4. For every in-bounds, homogeneous list the builder takes the list itself as the rows when
  its first element is a RowWidget and otherwise wraps the whole list into one RowWidget, puts
  the rows under one root ColumnWidget, and runs addWidgetJson on the root at offset (0, 0)
  with an empty output sequence and the given context; the records returned are the widgets
  array of the body. When every leaf renders, a body is produced, one record per leaf.
\<close>

theorem getDashboardBody_normalizes:
  assumes "length ws \<le> 100"
    and "list_all instanceofRowWidget ws \<or> list_all (\<lambda>w. \<not> instanceofRowWidget w) ws"
  shows "getDashboardBody (args\<lparr>arg_widgets := Some ws\<rparr>) region =
     (case addWidgetJson [] 0 0 region
             (ColumnWidget (if (case ws of [] \<Rightarrow> False | w # rest \<Rightarrow> instanceofRowWidget w)
                            then ws else [RowWidget ws])) of
        Inl e \<Rightarrow> Inl e
      | Inr widgetJsons \<Rightarrow>
          Inr \<lparr>body_start = arg_start args, body_end = arg_end args,
               body_periodOverride = arg_periodOverride args, body_widgets = widgetJsons\<rparr>)
    \<and> (list_all (renders region) (concat (map leaves ws)) \<longrightarrow>
         (\<exists>widgetJsons.
            getDashboardBody (args\<lparr>arg_widgets := Some ws\<rparr>) region =
              Inr \<lparr>body_start = arg_start args, body_end = arg_end args,
                   body_periodOverride = arg_periodOverride args,
                   body_widgets = widgetJsons\<rparr>
            \<and> map content widgetJsons = map (rendered region) (concat (map leaves ws))))"
proof -
  let ?root = "ColumnWidget (if (case ws of [] \<Rightarrow> False | w # rest \<Rightarrow> instanceofRowWidget w)
                            then ws else [RowWidget ws])"
  from assms(2) have "\<not> (\<exists>i<length ws. instanceofRowWidget (ws ! i) \<noteq> instanceofRowWidget (ws ! 0))"
    by (simp only: not_all_same_iff) simp
  then have hom: "\<forall>i<length ws. instanceofRowWidget (ws ! i) = instanceofRowWidget (ws ! 0)"
    by blast
  note valid = getDashboardBody_valid [OF assms(1) hom, of args region]
  have lv: "leaves ?root = concat (map leaves ws)" by simp
  have "\<exists>widgetJsons.
            getDashboardBody (args\<lparr>arg_widgets := Some ws\<rparr>) region =
              Inr \<lparr>body_start = arg_start args, body_end = arg_end args,
                   body_periodOverride = arg_periodOverride args,
                   body_widgets = widgetJsons\<rparr>
            \<and> map content widgetJsons = map (rendered region) (concat (map leaves ws))"
    if ok: "list_all (renders region) (concat (map leaves ws))"
  proof -
    from ok lv have "list_all (renders region) (leaves ?root)" by (simp only:)
    from flatten_all(1) [OF this, of "[]" 0 0] lv obtain js where
      js: "addWidgetJson [] 0 0 region ?root = Inr js"
          "map content js = map (rendered region) (concat (map leaves ws))"
      by (auto simp del: addWidgetJson.simps leaves.simps)
    from valid js(1) have "getDashboardBody (args\<lparr>arg_widgets := Some ws\<rparr>) region =
              Inr \<lparr>body_start = arg_start args, body_end = arg_end args,
                   body_periodOverride = arg_periodOverride args, body_widgets = js\<rparr>"
      by (simp only: sum.case)
    with js(2) show ?thesis by blast
  qed
  with valid show ?thesis by blast
qed

theorem getDashboardBody_normalizes_witness:
  "length [metricLeaf 10 3, metricLeaf 10 5, metricLeaf 10 2] \<le> 100
   \<and> (list_all instanceofRowWidget [metricLeaf 10 3, metricLeaf 10 5, metricLeaf 10 2]
      \<or> list_all (\<lambda>w. \<not> instanceofRowWidget w)
           [metricLeaf 10 3, metricLeaf 10 5, metricLeaf 10 2])
   \<and> list_all (renders ''us-west-2'')
        (concat (map leaves [metricLeaf 10 3, metricLeaf 10 5, metricLeaf 10 2]))
   \<and> getDashboardBody
       (sampleArgs\<lparr>arg_widgets := Some [metricLeaf 10 3, metricLeaf 10 5, metricLeaf 10 2]\<rparr>)
       ''us-west-2'' =
       Inr \<lparr>body_start = Some ''-PT8H'', body_end = None, body_periodOverride = Some Auto,
            body_widgets =
              [\<lparr>wj_type = ''metric'', wj_x = 0, wj_y = 0, wj_width = 10, wj_height = 3,
                wj_properties = ''us-west-2''\<rparr>,
               \<lparr>wj_type = ''metric'', wj_x = 10, wj_y = 0, wj_width = 10, wj_height = 5,
                wj_properties = ''us-west-2''\<rparr>,
               \<lparr>wj_type = ''metric'', wj_x = 0, wj_y = 5, wj_width = 10, wj_height = 2,
                wj_properties = ''us-west-2''\<rparr>]\<rparr>
   \<and> length [RowWidget [metricLeaf 12 6], RowWidget [metricLeaf 8 9]] \<le> 100
   \<and> (list_all instanceofRowWidget [RowWidget [metricLeaf 12 6], RowWidget [metricLeaf 8 9]]
      \<or> list_all (\<lambda>w. \<not> instanceofRowWidget w)
           [RowWidget [metricLeaf 12 6], RowWidget [metricLeaf 8 9]])
   \<and> getDashboardBody
       (sampleArgs\<lparr>arg_widgets := Some [RowWidget [metricLeaf 12 6], RowWidget [metricLeaf 8 9]]\<rparr>)
       ''us-west-2'' =
       Inr \<lparr>body_start = Some ''-PT8H'', body_end = None, body_periodOverride = Some Auto,
            body_widgets =
              [\<lparr>wj_type = ''metric'', wj_x = 0, wj_y = 0, wj_width = 12, wj_height = 6,
                wj_properties = ''us-west-2''\<rparr>,
               \<lparr>wj_type = ''metric'', wj_x = 0, wj_y = 6, wj_width = 8, wj_height = 9,
                wj_properties = ''us-west-2''\<rparr>]\<rparr>"
proof -
  have a: "list_all (\<lambda>w. \<not> instanceofRowWidget w)
             [metricLeaf 10 3, metricLeaf 10 5, metricLeaf 10 2]"
    by (simp add: metricLeaf_def)
  have b: "list_all instanceofRowWidget [RowWidget [metricLeaf 12 6], RowWidget [metricLeaf 8 9]]"
    by simp
  have c: "list_all (renders ''us-west-2'')
        (concat (map leaves [metricLeaf 10 3, metricLeaf 10 5, metricLeaf 10 2]))"
    by (simp add: metricLeaf_def renders_def)
  have d: "addWidgetJson [] 0 0 ''us-west-2''
             (ColumnWidget [RowWidget [metricLeaf 10 3, metricLeaf 10 5, metricLeaf 10 2]]) =
           Inr [\<lparr>wj_type = ''metric'', wj_x = 0, wj_y = 0, wj_width = 10, wj_height = 3,
                wj_properties = ''us-west-2''\<rparr>,
               \<lparr>wj_type = ''metric'', wj_x = 10, wj_y = 0, wj_width = 10, wj_height = 5,
                wj_properties = ''us-west-2''\<rparr>,
               \<lparr>wj_type = ''metric'', wj_x = 0, wj_y = 5, wj_width = 10, wj_height = 2,
                wj_properties = ''us-west-2''\<rparr>]"
    by (simp add: metricLeaf_def row_start_def row_wrap_def row_advance_def)
  have e: "addWidgetJson [] 0 0 ''us-west-2''
             (ColumnWidget [RowWidget [metricLeaf 12 6], RowWidget [metricLeaf 8 9]]) =
           Inr [\<lparr>wj_type = ''metric'', wj_x = 0, wj_y = 0, wj_width = 12, wj_height = 6,
                wj_properties = ''us-west-2''\<rparr>,
               \<lparr>wj_type = ''metric'', wj_x = 0, wj_y = 6, wj_width = 8, wj_height = 9,
                wj_properties = ''us-west-2''\<rparr>]"
    by (simp add: metricLeaf_def row_start_def row_wrap_def row_advance_def)
  from a b c d e
    getDashboardBody_normalizes
      [of "[metricLeaf 10 3, metricLeaf 10 5, metricLeaf 10 2]" sampleArgs "''us-west-2''"]
    getDashboardBody_normalizes
      [of "[RowWidget [metricLeaf 12 6], RowWidget [metricLeaf 8 9]]" sampleArgs "''us-west-2''"]
  show ?thesis
    by (simp add: sampleArgs_def metricLeaf_def del: addWidgetJson.simps)
qed


text \<open>
  C8. When the count bound or the homogeneity rule is violated the builder returns that error
  and nothing else: which error it is depends on the list's length alone, no body is returned,
  and a leaf that would fail during layout is never reached.
\<close>

theorem getDashboardBody_fails_before_layout:
  assumes "100 < length ws
           \<or> (\<exists>i<length ws. instanceofRowWidget (ws ! i) \<noteq> instanceofRowWidget (ws ! 0))"
  shows "getDashboardBody (args\<lparr>arg_widgets := Some ws\<rparr>) region =
           Inl (if 100 < length ws then BoundsError else HeterogeneousListError)
       \<and> (\<forall>body. getDashboardBody (args\<lparr>arg_widgets := Some ws\<rparr>) region \<noteq> Inr body)
       \<and> getDashboardBody (args\<lparr>arg_widgets := Some ws\<rparr>) region \<noteq> Inl LeafPropertyError"
proof (cases "100 < length ws")
  case True
  then show ?thesis by (simp add: getDashboardBody_bounds)
next
  case False
  with assms obtain i where "i < length ws"
    "instanceofRowWidget (ws ! i) \<noteq> instanceofRowWidget (ws ! 0)" by blast
  moreover from False have "length ws \<le> 100" by simp
  ultimately have "getDashboardBody (args\<lparr>arg_widgets := Some ws\<rparr>) region = Inl HeterogeneousListError"
    by (intro getDashboardBody_mixed)
  with False show ?thesis by simp
qed


theorem getDashboardBody_fails_before_layout_witness:
  "\<not> 100 < length [RowWidget [brokenLeaf], brokenLeaf]
   \<and> instanceofRowWidget ([RowWidget [brokenLeaf], brokenLeaf] ! 1)
       \<noteq> instanceofRowWidget ([RowWidget [brokenLeaf], brokenLeaf] ! 0)
   \<and> getDashboardBody (sampleArgs\<lparr>arg_widgets := Some [RowWidget [brokenLeaf], brokenLeaf]\<rparr>)
       ''us-west-2'' = Inl HeterogeneousListError
   \<and> addWidgetJson [] 0 0 ''us-west-2'' (RowWidget [brokenLeaf]) = Inl LeafPropertyError
   \<and> 100 < length (replicate 101 brokenLeaf)
   \<and> getDashboardBody (sampleArgs\<lparr>arg_widgets := Some (replicate 101 brokenLeaf)\<rparr>)
       ''us-west-2'' = Inl BoundsError"
proof -
  have a: "\<exists>i<length [RowWidget [brokenLeaf], brokenLeaf].
             instanceofRowWidget ([RowWidget [brokenLeaf], brokenLeaf] ! i)
               \<noteq> instanceofRowWidget ([RowWidget [brokenLeaf], brokenLeaf] ! 0)"
    by (rule exI [of _ 1]) (simp add: brokenLeaf_def)
  have b: "addWidgetJson [] 0 0 ''us-west-2'' (RowWidget [brokenLeaf]) = Inl LeafPropertyError"
    by (simp add: brokenLeaf_def)
  from a b
    getDashboardBody_fails_before_layout
      [of "[RowWidget [brokenLeaf], brokenLeaf]" sampleArgs "''us-west-2''"]
    getDashboardBody_fails_before_layout
      [of "replicate 101 brokenLeaf" sampleArgs "''us-west-2''"]
  show ?thesis
    by (simp add: brokenLeaf_def del: addWidgetJson.simps)
qed



section \<open>Rows, columns and the cursor trace\<close>

lemma row_finish_append:
  "row_finish st (xs @ ys) = row_finish (row_finish st xs) ys"
  by (induction st xs rule: row_finish.induct) simp_all

lemma addRowJson_append:
  "addRowJson out x y region st (pre @ post) =
     (case addRowJson out x y region st pre of
        Inl e \<Rightarrow> Inl e
      | Inr out' \<Rightarrow>
          addRowJson out' x y region
            (row_finish st (map (\<lambda>c. (width c, height c)) pre)) post)"
proof (induction pre arbitrary: out st)
  case Nil
  show ?case by simp
next
  case (Cons c pre)
  show ?case
    by (simp add: Cons.IH del: addWidgetJson.simps split: sum.splits)
qed

lemma addColumnJson_append:
  "addColumnJson out x y region cy (pre @ post) =
     (case addColumnJson out x y region cy pre of
        Inl e \<Rightarrow> Inl e
      | Inr out' \<Rightarrow>
          addColumnJson out' x y region (cy + sum_list (map height pre)) post)"
proof (induction pre arbitrary: out cy)
  case Nil
  show ?case by simp
next
  case (Cons c pre)
  show ?case
    by (simp add: Cons.IH add.assoc del: addWidgetJson.simps split: sum.splits)
qed

lemma row_trace_nonempty: "row_trace st cs \<noteq> []"
  by (cases cs) auto

lemma last_row_trace: "last (row_trace st cs) = row_finish st cs"
  by (induction st cs rule: row_trace.induct) (simp_all add: row_trace_nonempty)

lemma Max_insert_max:
  fixes m a :: int
  assumes "finite S"
  shows "Max (insert (max m a) S) = Max (insert m (insert a S))"
proof (cases "S = {}")
  case True
  then show ?thesis by (simp add: max.commute)
next
  case False
  with assms show ?thesis by (simp add: max.assoc)
qed

lemma row_extent_Max:
  "row_extent st m cs = Max (insert m (set (map cursorX (tl (row_trace st cs)))))"
proof (induction st m cs rule: row_extent.induct)
  case (1 st m)
  show ?case by simp
next
  case (2 st m cw ch cs)
  let ?st' = "row_advance (row_wrap st cw) cw ch"
  obtain t where t: "row_trace ?st' cs = ?st' # t"
    by (cases cs) auto
  have "row_extent st m ((cw, ch) # cs) = row_extent ?st' (max m (cursorX ?st')) cs"
    by (simp add: Let_def)
  also have "\<dots> = Max (insert (max m (cursorX ?st')) (set (map cursorX (tl (row_trace ?st' cs)))))"
    by (rule "2.IH") simp_all
  also have "\<dots> = Max (insert m (insert (cursorX ?st') (set (map cursorX t))))"
    using t by (simp add: Max_insert_max)
  also have "insert m (insert (cursorX ?st') (set (map cursorX t)))
               = insert m (set (map cursorX (tl (row_trace st ((cw, ch) # cs)))))"
    using t by simp
  finally show ?case .
qed

lemma row_extent_start:
  "row_extent row_start 0 cs = Max (set (map cursorX (row_trace row_start cs)))"
proof -
  obtain t where t: "row_trace row_start cs = row_start # t"
    by (cases cs) auto
  then show ?thesis
    by (simp add: row_extent_Max row_start_def)
qed

lemma fold_max_Max: "fold max xs (x::int) = Max (set (x # xs))"
  by (rule Max.set_eq_fold [symmetric])

lemma flatten_fail:
  "\<not> list_all (renders region) (leaves w) \<Longrightarrow>
     addWidgetJson out x y region w = Inl LeafPropertyError"
  "\<not> list_all (renders region) (concat (map leaves ws)) \<Longrightarrow>
     addRowJson out x y region st ws = Inl LeafPropertyError"
  "\<not> list_all (renders region) (concat (map leaves ws)) \<Longrightarrow>
     addColumnJson out x y region cy ws = Inl LeafPropertyError"
proof (induction out x y region w and out x y region st ws and out x y region cy ws
       rule: addWidgetJson_addRowJson_addColumnJson.induct)
  case (1 out xOffset yOffset region w h t p)
  then show ?case by (simp add: renders_def)
next
  case (2 out xOffset yOffset region ws)
  then show ?case by simp
next
  case (3 out xOffset yOffset region ws)
  then show ?case by simp
next
  case (4 out xOffset yOffset region st)
  then show ?case by simp
next
  case (5 out xOffset yOffset region st c cs)
  show ?case
  proof (cases "list_all (renders region) (leaves c)")
    case False
    from "5.IH"(1) [OF this] show ?thesis by simp
  next
    case True
    with "5.prems" have rest: "\<not> list_all (renders region) (concat (map leaves cs))" by simp
    show ?thesis
    proof (cases "addWidgetJson out (xOffset + cursorX (row_wrap st (width c)))
                    (yOffset + cursorY (row_wrap st (width c))) region c")
      case (Inl e)
      then have "e = LeafPropertyError" by (rule addWidgetJson_error(1))
      with Inl show ?thesis by simp
    next
      case (Inr out')
      from "5.IH"(2) [OF Inr rest] Inr show ?thesis by simp
    qed
  qed
next
  case (6 out xOffset yOffset region cy)
  then show ?case by simp
next
  case (7 out xOffset yOffset region cy c cs)
  show ?case
  proof (cases "list_all (renders region) (leaves c)")
    case False
    from "7.IH"(1) [OF this] show ?thesis by simp
  next
    case True
    with "7.prems" have rest: "\<not> list_all (renders region) (concat (map leaves cs))" by simp
    show ?thesis
    proof (cases "addWidgetJson out xOffset (yOffset + cy) region c")
      case (Inl e)
      then have "e = LeafPropertyError" by (rule addWidgetJson_error(1))
      with Inl show ?thesis by simp
    next
      case (Inr out')
      from "7.IH"(2) [OF Inr rest] Inr show ?thesis by simp
    qed
  qed
qed


section \<open>Properties of the layout\<close>

text \<open>
  C1. A row starts with cursorX, cursorY and lineHeight at 0 and processes its children in
  order. A child is wrapped (cursorX back to 0, cursorY advanced by lineHeight, lineHeight back
  to 0) exactly when cursorX plus the child's width exceeds 24; it is emitted at
  (xOffset + cursorX, yOffset + cursorY); then cursorX advances by the child's width and
  lineHeight becomes the larger of lineHeight and the child's height. The cursor a child meets
  is the one left by the children before it. Three leaves of width 10 land at x = 0, x = 10 and,
  wrapped, at x = 0 one line down; two leaves of width 12 land at x = 0 and x = 12 on one line.
\<close>

theorem RowWidget_wrap_rule:
  "addWidgetJson out xOffset yOffset region (RowWidget ws) =
     addRowJson out xOffset yOffset region \<lparr>cursorX = 0, cursorY = 0, lineHeight = 0\<rparr> ws
   \<and> addRowJson out xOffset yOffset region st [] = Inr out
   \<and> addRowJson out xOffset yOffset region st (c # cs) =
       (let wrapped = (cursorX st + width c > 24);
            cx = (if wrapped then 0 else cursorX st);
            cy = (if wrapped then cursorY st + lineHeight st else cursorY st);
            lh = (if wrapped then 0 else lineHeight st)
        in case addWidgetJson out (xOffset + cx) (yOffset + cy) region c of
             Inl e \<Rightarrow> Inl e
           | Inr out' \<Rightarrow>
               addRowJson out' xOffset yOffset region
                 \<lparr>cursorX = cx + width c, cursorY = cy, lineHeight = max lh (height c)\<rparr> cs)
   \<and> addRowJson out xOffset yOffset region st (pre @ c # cs) =
       (case addRowJson out xOffset yOffset region st pre of
          Inl e \<Rightarrow> Inl e
        | Inr out' \<Rightarrow>
            addRowJson out' xOffset yOffset region
              (row_finish st (map (\<lambda>c. (width c, height c)) pre)) (c # cs))
   \<and> addWidgetJson out xOffset yOffset region
         (RowWidget [Leaf 10 h1 t1 (\<lambda>r. Some q1), Leaf 10 h2 t2 (\<lambda>r. Some q2),
                     Leaf 10 h3 t3 (\<lambda>r. Some q3)]) =
       Inr (out @
         [\<lparr>wj_type = t1, wj_x = xOffset + 0, wj_y = yOffset + 0, wj_width = 10, wj_height = h1,
           wj_properties = q1\<rparr>,
          \<lparr>wj_type = t2, wj_x = xOffset + 10, wj_y = yOffset + 0, wj_width = 10, wj_height = h2,
           wj_properties = q2\<rparr>,
          \<lparr>wj_type = t3, wj_x = xOffset + 0, wj_y = yOffset + max (max 0 h1) h2, wj_width = 10,
           wj_height = h3, wj_properties = q3\<rparr>])
   \<and> addWidgetJson out xOffset yOffset region
         (RowWidget [Leaf 12 h1 t1 (\<lambda>r. Some q1), Leaf 12 h2 t2 (\<lambda>r. Some q2)]) =
       Inr (out @
         [\<lparr>wj_type = t1, wj_x = xOffset + 0, wj_y = yOffset + 0, wj_width = 12, wj_height = h1,
           wj_properties = q1\<rparr>,
          \<lparr>wj_type = t2, wj_x = xOffset + 12, wj_y = yOffset + 0, wj_width = 12, wj_height = h2,
           wj_properties = q2\<rparr>])"
proof (intro conjI)
  show "addWidgetJson out xOffset yOffset region (RowWidget ws) =
     addRowJson out xOffset yOffset region \<lparr>cursorX = 0, cursorY = 0, lineHeight = 0\<rparr> ws"
    by (simp add: row_start_def)
  show "addRowJson out xOffset yOffset region st [] = Inr out"
    by simp
  show "addRowJson out xOffset yOffset region st (c # cs) =
       (let wrapped = (cursorX st + width c > 24);
            cx = (if wrapped then 0 else cursorX st);
            cy = (if wrapped then cursorY st + lineHeight st else cursorY st);
            lh = (if wrapped then 0 else lineHeight st)
        in case addWidgetJson out (xOffset + cx) (yOffset + cy) region c of
             Inl e \<Rightarrow> Inl e
           | Inr out' \<Rightarrow>
               addRowJson out' xOffset yOffset region
                 \<lparr>cursorX = cx + width c, cursorY = cy, lineHeight = max lh (height c)\<rparr> cs)"
    by (cases "cursorX st + width c > 24")
       (simp_all add: row_wrap_def row_advance_def Let_def del: addWidgetJson.simps
          split: sum.splits)
  show "addRowJson out xOffset yOffset region st (pre @ c # cs) =
       (case addRowJson out xOffset yOffset region st pre of
          Inl e \<Rightarrow> Inl e
        | Inr out' \<Rightarrow>
            addRowJson out' xOffset yOffset region
              (row_finish st (map (\<lambda>c. (width c, height c)) pre)) (c # cs))"
    by (rule addRowJson_append)
  show "addWidgetJson out xOffset yOffset region
         (RowWidget [Leaf 10 h1 t1 (\<lambda>r. Some q1), Leaf 10 h2 t2 (\<lambda>r. Some q2),
                     Leaf 10 h3 t3 (\<lambda>r. Some q3)]) =
       Inr (out @
         [\<lparr>wj_type = t1, wj_x = xOffset + 0, wj_y = yOffset + 0, wj_width = 10, wj_height = h1,
           wj_properties = q1\<rparr>,
          \<lparr>wj_type = t2, wj_x = xOffset + 10, wj_y = yOffset + 0, wj_width = 10, wj_height = h2,
           wj_properties = q2\<rparr>,
          \<lparr>wj_type = t3, wj_x = xOffset + 0, wj_y = yOffset + max (max 0 h1) h2, wj_width = 10,
           wj_height = h3, wj_properties = q3\<rparr>])"
    by (simp add: row_start_def row_wrap_def row_advance_def)
  show "addWidgetJson out xOffset yOffset region
         (RowWidget [Leaf 12 h1 t1 (\<lambda>r. Some q1), Leaf 12 h2 t2 (\<lambda>r. Some q2)]) =
       Inr (out @
         [\<lparr>wj_type = t1, wj_x = xOffset + 0, wj_y = yOffset + 0, wj_width = 12, wj_height = h1,
           wj_properties = q1\<rparr>,
          \<lparr>wj_type = t2, wj_x = xOffset + 12, wj_y = yOffset + 0, wj_width = 12, wj_height = h2,
           wj_properties = q2\<rparr>])"
    by (simp add: row_start_def row_wrap_def row_advance_def)
qed

text \<open>
  C5. A column emits each child at (xOffset, yOffset + the sum of the heights of the children
  before it), without wrapping; its height is the sum of its children's heights and its width
  the largest of its children's widths. Two children of heights 6 and 9 are emitted at
  yOffset and yOffset + 6, and the column is 15 high.
\<close>

theorem ColumnWidget_stacks:
  "addWidgetJson out xOffset yOffset region (ColumnWidget (pre @ c # post)) =
     (case addWidgetJson out xOffset yOffset region (ColumnWidget pre) of
        Inl e \<Rightarrow> Inl e
      | Inr out1 \<Rightarrow>
          (case addWidgetJson out1 xOffset (yOffset + sum_list (map height pre)) region c of
             Inl e \<Rightarrow> Inl e
           | Inr out2 \<Rightarrow>
               addColumnJson out2 xOffset yOffset region
                 (sum_list (map height pre) + height c) post))
   \<and> height (ColumnWidget ws) = sum_list (map height ws)
   \<and> width (ColumnWidget (c # cs)) = Max (set (map width (c # cs)))
   \<and> (height r1 = 6 \<and> height r2 = 9 \<longrightarrow>
        addWidgetJson out xOffset yOffset region (ColumnWidget [r1, r2]) =
          (case addWidgetJson out xOffset yOffset region r1 of
             Inl e \<Rightarrow> Inl e
           | Inr out1 \<Rightarrow> addWidgetJson out1 xOffset (yOffset + 6) region r2)
        \<and> height (ColumnWidget [r1, r2]) = 15)"
proof (intro conjI impI)
  have "addColumnJson out xOffset yOffset region 0 (pre @ c # post) =
     (case addColumnJson out xOffset yOffset region 0 pre of
        Inl e \<Rightarrow> Inl e
      | Inr out1 \<Rightarrow>
          addColumnJson out1 xOffset yOffset region (0 + sum_list (map height pre)) (c # post))"
    by (rule addColumnJson_append)
  then show "addWidgetJson out xOffset yOffset region (ColumnWidget (pre @ c # post)) =
     (case addWidgetJson out xOffset yOffset region (ColumnWidget pre) of
        Inl e \<Rightarrow> Inl e
      | Inr out1 \<Rightarrow>
          (case addWidgetJson out1 xOffset (yOffset + sum_list (map height pre)) region c of
             Inl e \<Rightarrow> Inl e
           | Inr out2 \<Rightarrow>
               addColumnJson out2 xOffset yOffset region
                 (sum_list (map height pre) + height c) post))"
    by (simp del: addWidgetJson.simps(1,2) split: sum.splits)
  show "height (ColumnWidget ws) = sum_list (map height ws)"
    by simp
  show "width (ColumnWidget (c # cs)) = Max (set (map width (c # cs)))"
    using fold_max_Max [of "map width cs" "width c"] by simp
next
  assume h: "height r1 = 6 \<and> height r2 = 9"
  then show "addWidgetJson out xOffset yOffset region (ColumnWidget [r1, r2]) =
          (case addWidgetJson out xOffset yOffset region r1 of
             Inl e \<Rightarrow> Inl e
           | Inr out1 \<Rightarrow> addWidgetJson out1 xOffset (yOffset + 6) region r2)"
    by (simp del: addWidgetJson.simps(1,2) split: sum.splits)
  from h show "height (ColumnWidget [r1, r2]) = 15"
    by simp
qed

theorem ColumnWidget_stacks_witness:
  "height (RowWidget [metricLeaf 12 6, metricLeaf 12 4]) = 6
   \<and> height (RowWidget [metricLeaf 10 9]) = 9
   \<and> addWidgetJson [] 0 0 ''us-west-2''
        (ColumnWidget [RowWidget [metricLeaf 12 6, metricLeaf 12 4], RowWidget [metricLeaf 10 9]]) =
       Inr [\<lparr>wj_type = ''metric'', wj_x = 0, wj_y = 0, wj_width = 12, wj_height = 6,
             wj_properties = ''us-west-2''\<rparr>,
            \<lparr>wj_type = ''metric'', wj_x = 12, wj_y = 0, wj_width = 12, wj_height = 4,
             wj_properties = ''us-west-2''\<rparr>,
            \<lparr>wj_type = ''metric'', wj_x = 0, wj_y = 6, wj_width = 10, wj_height = 9,
             wj_properties = ''us-west-2''\<rparr>]
   \<and> height
        (ColumnWidget [RowWidget [metricLeaf 12 6, metricLeaf 12 4], RowWidget [metricLeaf 10 9]])
       = 15"
proof -
  have a: "height (RowWidget [metricLeaf 12 6, metricLeaf 12 4]) = 6"
    by (simp add: metricLeaf_def row_start_def row_wrap_def row_advance_def)
  have b: "height (RowWidget [metricLeaf 10 9 :: (string, string) widget]) = 9"
    by (simp add: metricLeaf_def row_start_def row_wrap_def row_advance_def)
  have c: "addWidgetJson [] 0 0 ''us-west-2'' (RowWidget [metricLeaf 12 6, metricLeaf 12 4]) =
       Inr [\<lparr>wj_type = ''metric'', wj_x = 0, wj_y = 0, wj_width = 12, wj_height = 6,
             wj_properties = ''us-west-2''\<rparr>,
            \<lparr>wj_type = ''metric'', wj_x = 12, wj_y = 0, wj_width = 12, wj_height = 4,
             wj_properties = ''us-west-2''\<rparr>]"
    by (simp add: metricLeaf_def row_start_def row_wrap_def row_advance_def)
  have d: "addWidgetJson out 0 6 ''us-west-2'' (RowWidget [metricLeaf 10 9]) =
       Inr (out @ [\<lparr>wj_type = ''metric'', wj_x = 0, wj_y = 6, wj_width = 10, wj_height = 9,
             wj_properties = ''us-west-2''\<rparr>])" for out
    by (simp add: metricLeaf_def row_start_def row_wrap_def row_advance_def)
  from a b
    ColumnWidget_stacks
      [of "[]" 0 0 "''us-west-2''" "[]" "RowWidget [metricLeaf 12 6, metricLeaf 12 4]" "[]" "[]" "[]"
          "RowWidget [metricLeaf 12 6, metricLeaf 12 4]" "RowWidget [metricLeaf 10 9]"]
  have e: "addWidgetJson [] 0 0 ''us-west-2''
             (ColumnWidget [RowWidget [metricLeaf 12 6, metricLeaf 12 4],
                            RowWidget [metricLeaf 10 9]]) =
          (case addWidgetJson [] 0 0 ''us-west-2'' (RowWidget [metricLeaf 12 6, metricLeaf 12 4]) of
             Inl e \<Rightarrow> Inl e
           | Inr out1 \<Rightarrow> addWidgetJson out1 0 (0 + 6) ''us-west-2'' (RowWidget [metricLeaf 10 9]))"
    and f: "height (ColumnWidget [RowWidget [metricLeaf 12 6, metricLeaf 12 4],
                                  RowWidget [metricLeaf 10 9]]) = 15"
    by blast+
  from e have "addWidgetJson [] 0 0 ''us-west-2''
             (ColumnWidget [RowWidget [metricLeaf 12 6, metricLeaf 12 4],
                            RowWidget [metricLeaf 10 9]]) =
       Inr [\<lparr>wj_type = ''metric'', wj_x = 0, wj_y = 0, wj_width = 12, wj_height = 6,
             wj_properties = ''us-west-2''\<rparr>,
            \<lparr>wj_type = ''metric'', wj_x = 12, wj_y = 0, wj_width = 12, wj_height = 4,
             wj_properties = ''us-west-2''\<rparr>,
            \<lparr>wj_type = ''metric'', wj_x = 0, wj_y = 6, wj_width = 10, wj_height = 9,
             wj_properties = ''us-west-2''\<rparr>]"
    by (simp only: c d sum.case add_0 append_Cons append_Nil)
  with a b f show ?thesis by (intro conjI)
qed

text \<open>
  C6. Once a row has processed all its children, its height is the final cursorY plus the final
  lineHeight, and its width is the largest cursorX among the cursor states it went through,
  capped at 24. The final cursor is the one the emitting loop would continue with.
\<close>

theorem RowWidget_derived_size:
  "(let tr = row_trace row_start (map (\<lambda>c. (width c, height c)) ws)
    in height (RowWidget ws) = cursorY (last tr) + lineHeight (last tr)
       \<and> width (RowWidget ws) = min 24 (Max (set (map cursorX tr)))
       \<and> width (RowWidget ws) \<le> 24
       \<and> addWidgetJson out xOffset yOffset region (RowWidget (ws @ later)) =
           (case addWidgetJson out xOffset yOffset region (RowWidget ws) of
              Inl e \<Rightarrow> Inl e
            | Inr out' \<Rightarrow> addRowJson out' xOffset yOffset region (last tr) later))"
  by (simp add: Let_def last_row_trace row_extent_start addRowJson_append
           del: row_trace.simps split: sum.splits)


text \<open>
  C7. When every leaf of a tree renders, the traversal appends exactly one record per leaf, in
  the leaves' reading order; when some leaf does not, it ends with that leaf's error and no
  output. A column of two rows of two leaves each gives four records, in the order row 1 leaf
  1, row 1 leaf 2, row 2 leaf 1, row 2 leaf 2.
\<close>

theorem flatten_one_record_per_leaf:
  "(list_all (renders region) (leaves root) \<longrightarrow>
      (\<exists>recs. addWidgetJson out xOffset yOffset region root = Inr (out @ recs)
             \<and> length recs = length (leaves root)
             \<and> map content recs = map (rendered region) (leaves root)))
   \<and> (\<not> list_all (renders region) (leaves root) \<longrightarrow>
      addWidgetJson out xOffset yOffset region root = Inl LeafPropertyError)
   \<and> (\<exists>recs. addWidgetJson out xOffset yOffset region
               (ColumnWidget
                  [RowWidget [Leaf w1 h1 t1 (\<lambda>r. Some q1), Leaf w2 h2 t2 (\<lambda>r. Some q2)],
                   RowWidget [Leaf w3 h3 t3 (\<lambda>r. Some q3), Leaf w4 h4 t4 (\<lambda>r. Some q4)]])
             = Inr (out @ recs)
           \<and> map (\<lambda>r. (wj_type r, wj_properties r)) recs
               = [(t1, q1), (t2, q2), (t3, q3), (t4, q4)])"
proof (intro conjI impI)
  assume ok: "list_all (renders region) (leaves root)"
  from flatten_all(1) [OF ok, of out xOffset yOffset] obtain recs where
    r: "addWidgetJson out xOffset yOffset region root = Inr (out @ recs)"
       "map content recs = map (rendered region) (leaves root)" by blast
  from r(2) have "length (map content recs) = length (map (rendered region) (leaves root))"
    by (simp only:)
  then have "length recs = length (leaves root)" by simp
  with r show "\<exists>recs. addWidgetJson out xOffset yOffset region root = Inr (out @ recs)
             \<and> length recs = length (leaves root)
             \<and> map content recs = map (rendered region) (leaves root)" by blast
next
  assume "\<not> list_all (renders region) (leaves root)"
  then show "addWidgetJson out xOffset yOffset region root = Inl LeafPropertyError"
    by (rule flatten_fail(1))
next
  let ?root = "ColumnWidget
                  [RowWidget [Leaf w1 h1 t1 (\<lambda>r. Some q1), Leaf w2 h2 t2 (\<lambda>r. Some q2)],
                   RowWidget [Leaf w3 h3 t3 (\<lambda>r. Some q3), Leaf w4 h4 t4 (\<lambda>r. Some q4)]]"
  have "list_all (renders region) (leaves ?root)"
    by (simp add: renders_def)
  from flatten_all(1) [OF this, of out xOffset yOffset] obtain recs where
    r: "addWidgetJson out xOffset yOffset region ?root = Inr (out @ recs)"
       "map content recs = map (rendered region) (leaves ?root)" by blast
  from r(2) have "map (\<lambda>c. (fst (snd (snd c)), the (snd (snd (snd c))))) (map content recs)
       = map (\<lambda>c. (fst (snd (snd c)), the (snd (snd (snd c))))) (map (rendered region) (leaves ?root))"
    by (simp only:)
  then have "map (\<lambda>r. (wj_type r, wj_properties r)) recs
               = [(t1, q1), (t2, q2), (t3, q3), (t4, q4)]"
    by (simp add: content_def rendered_def comp_def)
  with r(1) show "\<exists>recs. addWidgetJson out xOffset yOffset region ?root = Inr (out @ recs)
           \<and> map (\<lambda>r. (wj_type r, wj_properties r)) recs
               = [(t1, q1), (t2, q2), (t3, q3), (t4, q4)]"
    by (intro exI [of _ recs] conjI)
qed

theorem flatten_one_record_per_leaf_witness:
  "list_all (renders ''us-west-2'')
     (leaves (ColumnWidget
        [RowWidget [Leaf 6 6 ''a'' Some, Leaf 6 3 ''b'' Some],
         RowWidget [Leaf 20 2 ''c'' Some, Leaf 8 4 ''d'' Some]]))
   \<and> addWidgetJson [] 0 0 ''us-west-2''
       (ColumnWidget
          [RowWidget [Leaf 6 6 ''a'' Some, Leaf 6 3 ''b'' Some],
           RowWidget [Leaf 20 2 ''c'' Some, Leaf 8 4 ''d'' Some]]) =
       Inr [\<lparr>wj_type = ''a'', wj_x = 0, wj_y = 0, wj_width = 6, wj_height = 6,
             wj_properties = ''us-west-2''\<rparr>,
            \<lparr>wj_type = ''b'', wj_x = 6, wj_y = 0, wj_width = 6, wj_height = 3,
             wj_properties = ''us-west-2''\<rparr>,
            \<lparr>wj_type = ''c'', wj_x = 0, wj_y = 6, wj_width = 20, wj_height = 2,
             wj_properties = ''us-west-2''\<rparr>,
            \<lparr>wj_type = ''d'', wj_x = 0, wj_y = 8, wj_width = 8, wj_height = 4,
             wj_properties = ''us-west-2''\<rparr>]
   \<and> length (leaves (ColumnWidget
        [RowWidget [Leaf 6 6 ''a'' Some, Leaf 6 3 ''b'' Some],
         RowWidget [Leaf 20 2 ''c'' Some, Leaf 8 4 ''d'' (Some :: string \<Rightarrow> string option)]])) = 4
   \<and> \<not> list_all (renders ''us-west-2'') (leaves (RowWidget [metricLeaf 6 6, brokenLeaf]))
   \<and> addWidgetJson [] 0 0 ''us-west-2'' (RowWidget [metricLeaf 6 6, brokenLeaf])
       = Inl LeafPropertyError"
  using flatten_one_record_per_leaf
      [of "''us-west-2''"
          "ColumnWidget
            [RowWidget [Leaf 6 6 ''a'' Some, Leaf 6 3 ''b'' Some],
             RowWidget [Leaf 20 2 ''c'' Some, Leaf 8 4 ''d'' Some]]"
          "[]" 0 0]
    flatten_one_record_per_leaf
      [of "''us-west-2''" "RowWidget [metricLeaf 6 6, brokenLeaf]" "[]" 0 0]
  by (simp add: renders_def metricLeaf_def brokenLeaf_def row_start_def row_wrap_def
        row_advance_def)


end
